theory Spec2Isabelle
  imports Main
begin

section \<open>Data model\<close>

text \<open>
  The bookmark extension (\<^verbatim>\<open>bot/exts/utilities/bookmark.py\<close>) and the bot session
  (\<^verbatim>\<open>bot/bot.py\<close>) talk to three outside parties: the chat platform (members, messages,
  channels, reactions), the Redis cache holding one entry per member, and the event loop.
  Identifiers are Python integers, hence \<^typ>\<open>int\<close>.

  A member carries the id the cache is keyed by, the mention string used in error embeds,
  and whether the platform lets the bot open a private channel to it: when it does not,
  \<^verbatim>\<open>member.send\<close> raises \<^verbatim>\<open>discord.Forbidden\<close>.
\<close>

record member =
  member_id :: int
  mention :: string
  accepts_dm :: bool

record message =
  message_id :: int
  channel_id :: int
  content :: string
  author :: string
  jump_url :: string

text \<open>
  The three embeds the extension builds. The title of an error embed is
  \<^verbatim>\<open>random.choice(ERROR_REPLIES)\<close>, a table of \<^verbatim>\<open>bot.constants\<close>; the model keeps the
  description, which is what the extension computes.
\<close>

datatype embed =
    BookmarkDM string string string string
  | ErrorEmbed string
  | ReactionEmbed string

text \<open>
  What the platform is asked to do, in the order the requests are made. A private message
  is either delivered (\<open>DirectMessage\<close>) or refused by the platform
  (\<open>SendRefused\<close>, the request behind \<^verbatim>\<open>discord.Forbidden\<close>).
\<close>

datatype effect =
    DirectMessage int embed
  | SendRefused int
  | ChannelSend int embed
  | AddReaction int string
  | RemoveReaction int string int
  | DeleteMessage int
  | ResetCooldown
  | DefaultErrorHandler

text \<open>
  The exceptions of the two files. \<^verbatim>\<open>AlreadyBookmarkedError\<close> is declared as a subclass of
  \<^verbatim>\<open>commands.UserInputError\<close>; \<^verbatim>\<open>asyncio.TimeoutError\<close> is the value \<open>None\<close> of
  \<open>wait_for\<close> below; \<^verbatim>\<open>TypeError\<close> is what Python raises for a call that leaves out a
  required argument.
\<close>

datatype exn =
    AlreadyBookmarkedError
  | Forbidden
  | UserInputError string
  | TypeError

fun is_UserInputError :: "exn \<Rightarrow> bool" where
  "is_UserInputError AlreadyBookmarkedError = True"
| "is_UserInputError (UserInputError text) = True"
| "is_UserInputError Forbidden = False"
| "is_UserInputError TypeError = False"

text \<open>
  The world a command runs in: the cache \<^verbatim>\<open>member_bookmarked_messages\<close> (one entry per
  member id; the stored value is \<^verbatim>\<open>json.dumps\<close> of a list of integers and is read back
  with \<^verbatim>\<open>json.loads\<close>, so the model stores the list), the id the platform gives to the
  next message it creates, the event loop's clock in seconds, and the requests made so
  far.
\<close>

record world =
  cache :: "int \<rightharpoonup> int list"
  next_message_id :: int
  clock :: nat
  effects :: "effect list"

definition TIMEOUT :: nat where
  "TIMEOUT = 120"

definition BOOKMARK_EMOJI :: string where
  "BOOKMARK_EMOJI = [CHR 0xF0, CHR 0x9F, CHR 0x93, CHR 0x8C]"

definition MESSAGE_NOT_FOUND_ERROR :: string where
  "MESSAGE_NOT_FOUND_ERROR =
     ''You must either provide a valid message to bookmark, or reply to one.''
     @ ''\<newline>\<newline>The lookup strategy for a message is as follows (in order):''
     @ ''\<newline>1. Lookup by '{channel ID}-{message ID}' (retrieved by shift-clicking on 'Copy ID')''
     @ ''\<newline>2. Lookup by message ID (the message **must** have been sent after the bot last started)''
     @ ''\<newline>3. Lookup by message URL''"

section \<open>Platform requests\<close>

text \<open>
  The only platform failure the extension handles is the refusal of a private message.
  The other requests (\<^verbatim>\<open>channel.send\<close>, \<^verbatim>\<open>add_reaction\<close>, \<^verbatim>\<open>message.delete\<close>) are
  taken to return.
\<close>

text \<open>
  \<^verbatim>\<open>member.send(embed=...)\<close>: raises \<^verbatim>\<open>Forbidden\<close> when the member's private messages are
  closed; otherwise the platform creates the message and returns it. The member's private
  channel is given the member's id.
\<close>

definition member_send :: "member \<Rightarrow> embed \<Rightarrow> world \<Rightarrow> (exn + message) \<times> world" where
  "member_send m e w =
     (if accepts_dm m
      then (Inr \<lparr>message_id = next_message_id w, channel_id = member_id m, content = [],
                 author = [], jump_url = []\<rparr>,
            w\<lparr>next_message_id := next_message_id w + 1,
              effects := effects w @ [DirectMessage (member_id m) e]\<rparr>)
      else (Inl Forbidden, w\<lparr>effects := effects w @ [SendRefused (member_id m)]\<rparr>))"

text \<open>\<^verbatim>\<open>channel.send(embed=...)\<close> and \<^verbatim>\<open>ctx.send(embed=...)\<close>.\<close>

definition channel_send :: "int \<Rightarrow> embed \<Rightarrow> world \<Rightarrow> message \<times> world" where
  "channel_send ch e w =
     (\<lparr>message_id = next_message_id w, channel_id = ch, content = [],
       author = [], jump_url = []\<rparr>,
      w\<lparr>next_message_id := next_message_id w + 1,
        effects := effects w @ [ChannelSend ch e]\<rparr>)"

definition add_reaction :: "message \<Rightarrow> string \<Rightarrow> world \<Rightarrow> world" where
  "add_reaction msg emoji w = w\<lparr>effects := effects w @ [AddReaction (message_id msg) emoji]\<rparr>"

definition message_delete :: "message \<Rightarrow> world \<Rightarrow> world" where
  "message_delete msg w = w\<lparr>effects := effects w @ [DeleteMessage (message_id msg)]\<rparr>"

section \<open>The bookmark cache\<close>

text \<open>\<^verbatim>\<open>get(member.id, "[]")\<close> followed by \<^verbatim>\<open>json.loads\<close>: an absent entry reads as the empty list.\<close>

definition get_member_bookmarked_messages :: "world \<Rightarrow> member \<Rightarrow> int list" where
  "get_member_bookmarked_messages w m =
     (case cache w (member_id m) of None \<Rightarrow> [] | Some ids \<Rightarrow> ids)"

datatype add_or_remove = Add | Remove

text \<open>
  The membership test comes first and returns for either action; \<^verbatim>\<open>list.append\<close> adds at
  the end, \<^verbatim>\<open>list.remove\<close> deletes the first occurrence.
\<close>

definition update_member_bookmarked_messages ::
    "member \<Rightarrow> int \<Rightarrow> add_or_remove \<Rightarrow> world \<Rightarrow> world" where
  "update_member_bookmarked_messages m mid action w =
     (let members_bookmarked_messages = get_member_bookmarked_messages w m in
      if mid \<notin> set members_bookmarked_messages then w
      else w\<lparr>cache := (cache w)(member_id m \<mapsto>
                (case action of
                   Add \<Rightarrow> members_bookmarked_messages @ [mid]
                 | Remove \<Rightarrow> remove1 mid members_bookmarked_messages))\<rparr>)"

section \<open>Sending a bookmark to one member\<close>

definition build_bookmark_dm :: "message \<Rightarrow> string \<Rightarrow> embed" where
  "build_bookmark_dm target_message title =
     BookmarkDM title (content target_message)
       (''[Visit original message]('' @ jump_url target_message @ '')'')
       (author target_message)"

definition build_error_embed :: "string \<Rightarrow> embed" where
  "build_error_embed text = ErrorEmbed text"

definition maybe_send_bookmark ::
    "message \<Rightarrow> string \<Rightarrow> member \<Rightarrow> world \<Rightarrow> (exn + message) \<times> world" where
  "maybe_send_bookmark target_message title m w =
     (let members_bookmarked_messages = get_member_bookmarked_messages w m in
      if message_id target_message \<in> set members_bookmarked_messages
      then (Inl AlreadyBookmarkedError, w)
      else (case member_send m (build_bookmark_dm target_message title) w of
              (Inl e, w') \<Rightarrow> (Inl e, w')
            | (Inr msg, w') \<Rightarrow>
                (Inr msg, update_member_bookmarked_messages m (message_id msg) Add w')))"

text \<open>
  The two \<^verbatim>\<open>except\<close> clauses catch \<^verbatim>\<open>Forbidden\<close> and \<^verbatim>\<open>AlreadyBookmarkedError\<close>; any other
  exception leaves the function.
\<close>

definition action_bookmark ::
    "int \<Rightarrow> member \<Rightarrow> message \<Rightarrow> string \<Rightarrow> world \<Rightarrow> (exn + unit) \<times> world" where
  "action_bookmark channel m target_message title w =
     (case maybe_send_bookmark target_message title m w of
        (Inr msg, w') \<Rightarrow> (Inr (), w')
      | (Inl Forbidden, w') \<Rightarrow>
          (Inr (), snd (channel_send channel
             (build_error_embed (mention m @ '', please enable your DMs to receive the bookmark.'')) w'))
      | (Inl AlreadyBookmarkedError, w') \<Rightarrow>
          (Inr (), snd (channel_send channel
             (build_error_embed (mention m @ '', you have already bookmarked this message!'')) w'))
      | (Inl e, w') \<Rightarrow> (Inl e, w'))"

section \<open>The bookmark command\<close>

text \<open>
  What a command invocation knows: the channel it was sent in, its author, the message
  its reply reference resolves to (\<^verbatim>\<open>getattr(ctx.message.reference, "resolved", None)\<close>)
  and the invoking message's jump URL.
\<close>

record command_context =
  ctx_channel :: int
  ctx_author :: member
  ctx_reference :: "message option"
  ctx_jump_url :: string

text \<open>
  What the platform answers: the bot's own user id and, for a channel id and a member id,
  whether \<^verbatim>\<open>permissions_for(member).read_messages\<close> holds.
\<close>

record platform =
  bot_user_id :: int
  read_messages :: "int \<Rightarrow> int \<Rightarrow> bool"

text \<open>\<^verbatim>\<open>target_message or getattr(ctx.message.reference, "resolved", None)\<close>\<close>

definition resolve_target :: "message option \<Rightarrow> command_context \<Rightarrow> message option" where
  "resolve_target arg ctx = (case arg of Some msg \<Rightarrow> Some msg | None \<Rightarrow> ctx_reference ctx)"

text \<open>
  A \<^verbatim>\<open>reaction_add\<close> event: when it is dispatched (seconds on the event loop's clock), the
  message reacted to, \<^verbatim>\<open>str(reaction.emoji)\<close> and the reacting user.
\<close>

record reaction_event =
  at :: nat
  reaction_message_id :: int
  reaction_emoji :: string
  reaction_user :: member

text \<open>The closure \<^verbatim>\<open>event_check\<close>: Python's \<^verbatim>\<open>all\<close> over the tuple of four tests.\<close>

definition event_check :: "platform \<Rightarrow> message \<Rightarrow> int list \<Rightarrow> reaction_event \<Rightarrow> bool" where
  "event_check p reaction_message bookmarked_users ev =
     list_all (\<lambda>b. b)
       [reaction_message_id ev = message_id reaction_message,
        member_id (reaction_user ev) \<notin> set bookmarked_users,
        reaction_emoji ev = BOOKMARK_EMOJI,
        member_id (reaction_user ev) \<noteq> bot_user_id p]"

text \<open>
  \<^verbatim>\<open>bot.wait_for("reaction_add", timeout=..., check=...)\<close> against the reactions still to be
  dispatched, in chronological order: it returns the first event that passes the check
  and arrives before the deadline, together with the events after it; events that fail
  the check are dropped. \<open>None\<close> is \<^verbatim>\<open>asyncio.TimeoutError\<close>. The deadline is the
  clock at the moment of the call plus the timeout.
\<close>

fun first_before ::
    "nat \<Rightarrow> (reaction_event \<Rightarrow> bool) \<Rightarrow> reaction_event list \<Rightarrow>
     (reaction_event \<times> reaction_event list) option" where
  "first_before deadline check [] = None"
| "first_before deadline check (ev # pending) =
     (if deadline \<le> at ev then None
      else if check ev then Some (ev, pending)
      else first_before deadline check pending)"

definition wait_for ::
    "nat \<Rightarrow> (reaction_event \<Rightarrow> bool) \<Rightarrow> reaction_event list \<Rightarrow> world \<Rightarrow>
     (reaction_event \<times> reaction_event list) option" where
  "wait_for timeout check pending w = first_before (clock w + timeout) check pending"

text \<open>
  The library's \<^verbatim>\<open>Reaction.remove(self, user)\<close> takes off the message the reaction of the
  user it is given. The user is a required argument: a call without it raises
  \<^verbatim>\<open>TypeError\<close> before any request is made. The argument is \<open>None\<close> for such a call.
\<close>

definition reaction_remove ::
    "int option \<Rightarrow> reaction_event \<Rightarrow> world \<Rightarrow> (exn + unit) \<times> world" where
  "reaction_remove user ev w =
     (case user of
        None \<Rightarrow> (Inl TypeError, w)
      | Some u \<Rightarrow>
          (Inr (), w\<lparr>effects := effects w @
             [RemoveReaction (reaction_message_id ev) (reaction_emoji ev) u]\<rparr>))"

lemma first_before_shorter:
  "first_before deadline check pending = Some (ev, rest) \<Longrightarrow> length rest < length pending"
  by (induction pending) (auto split: if_splits)

text \<open>
  The \<^verbatim>\<open>while True\<close> loop of the command. It returns the list \<^verbatim>\<open>bookmarked_users\<close> as it
  stands when the loop is left, next to the outcome and the world. Only
  \<^verbatim>\<open>asyncio.TimeoutError\<close> is caught; the loop calls \<^verbatim>\<open>reaction.remove()\<close> with no argument.
\<close>

function collecting ::
    "platform \<Rightarrow> int \<Rightarrow> message \<Rightarrow> string \<Rightarrow> message \<Rightarrow> reaction_event list \<Rightarrow>
     int list \<Rightarrow> world \<Rightarrow> (exn + unit) \<times> int list \<times> world" where
  "collecting p channel target_message title reaction_message pending bookmarked_users w =
     (case wait_for TIMEOUT (event_check p reaction_message bookmarked_users) pending w of
        None \<Rightarrow> (Inr (), bookmarked_users, w\<lparr>clock := clock w + TIMEOUT\<rparr>)
      | Some (ev, rest) \<Rightarrow>
          (case action_bookmark channel (reaction_user ev) target_message title
                  (w\<lparr>clock := at ev\<rparr>) of
             (Inl e, w') \<Rightarrow> (Inl e, bookmarked_users, w')
           | (Inr u, w') \<Rightarrow>
               (case reaction_remove None ev w' of
                  (Inl e, w'') \<Rightarrow> (Inl e, bookmarked_users, w'')
                | (Inr u, w'') \<Rightarrow>
                    collecting p channel target_message title reaction_message rest
                      (bookmarked_users @ [member_id (reaction_user ev)]) w'')))"
  by pat_completeness auto
termination
  by (relation "measure (\<lambda>(p, channel, target_message, title, reaction_message, pending,
                            bookmarked_users, w). length pending)")
     (auto simp: wait_for_def dest: first_before_shorter)

declare collecting.simps [simp del]

definition bookmark ::
    "platform \<Rightarrow> command_context \<Rightarrow> message option \<Rightarrow> string \<Rightarrow> reaction_event list \<Rightarrow> world \<Rightarrow>
     (exn + unit) \<times> world" where
  "bookmark p ctx arg title pending w =
     (case resolve_target arg ctx of
        None \<Rightarrow> (Inl (UserInputError MESSAGE_NOT_FOUND_ERROR), w)
      | Some target_message \<Rightarrow>
          if \<not> read_messages p (channel_id target_message) (member_id (ctx_author ctx))
          then (Inr (), snd (channel_send (ctx_channel ctx)
                  (build_error_embed (mention (ctx_author ctx)
                     @ '' You don't have permission to view this channel.'')) w))
          else
            (case action_bookmark (ctx_channel ctx) (ctx_author ctx) target_message title w of
               (Inl e, w1) \<Rightarrow> (Inl e, w1)
             | (Inr u, w1) \<Rightarrow>
                 (let bookmarked_users = [member_id (ctx_author ctx)];
                      reaction_embed = ReactionEmbed
                        (''React with '' @ BOOKMARK_EMOJI
                           @ '' to be sent your very own bookmark to [this message]('' @ ctx_jump_url ctx
                           @ '').'');
                      (reaction_message, w2) = channel_send (ctx_channel ctx) reaction_embed w1;
                      w3 = add_reaction reaction_message BOOKMARK_EMOJI w2
                  in case collecting p (ctx_channel ctx) target_message title reaction_message
                            pending bookmarked_users w3 of
                       (Inl e, users, w4) \<Rightarrow> (Inl e, w4)
                     | (Inr u, users, w4) \<Rightarrow> (Inr (), message_delete reaction_message w4))))"

section \<open>Deleting a bookmark\<close>

definition delete_bookmark ::
    "command_context \<Rightarrow> message option \<Rightarrow> world \<Rightarrow> (exn + unit) \<times> world" where
  "delete_bookmark ctx arg w =
     (case resolve_target arg ctx of
        None \<Rightarrow> (Inl (UserInputError MESSAGE_NOT_FOUND_ERROR), w)
      | Some message_to_delete \<Rightarrow>
          if channel_id message_to_delete \<noteq> ctx_channel ctx
          then (Inl (UserInputError '':x: You can only delete messages in your own DMs!''), w)
          else (Inr (), update_member_bookmarked_messages (ctx_author ctx)
                          (message_id message_to_delete) Remove
                          (message_delete message_to_delete w)))"

section \<open>The bot session\<close>

text \<open>
  \<^verbatim>\<open>SeasonalBot.on_command_error\<close>: a \<^verbatim>\<open>UserInputError\<close> resets the command's cooldown, any
  other exception goes to the library's default handler.
\<close>

definition on_command_error :: "command_context \<Rightarrow> exn \<Rightarrow> world \<Rightarrow> world" where
  "on_command_error ctx exception w =
     (if is_UserInputError exception
      then w\<lparr>effects := effects w @ [ResetCooldown]\<rparr>
      else w\<lparr>effects := effects w @ [DefaultErrorHandler]\<rparr>)"

text \<open>
  \<^verbatim>\<open>SeasonalBot.close\<close>. The session owns the event-client connection (closed by
  \<^verbatim>\<open>super().close()\<close>) and may hold an HTTP client session and a Redis session. Whether
  closing a resource raises is the environment's choice, given as \<open>fails\<close>. The result
  carries the resources whose close was called and those that were closed, in order.
\<close>

datatype resource = EventClient | HttpSession | RedisSession

datatype close_error = CloseFailed resource

record bot_session =
  http_session :: bool
  redis_session :: bool

record teardown =
  attempted :: "resource list"
  closed :: "resource list"

definition close_resource ::
    "(resource \<Rightarrow> bool) \<Rightarrow> resource \<Rightarrow> teardown \<Rightarrow> (close_error + unit) \<times> teardown" where
  "close_resource fails r t =
     (if fails r
      then (Inl (CloseFailed r), t\<lparr>attempted := attempted t @ [r]\<rparr>)
      else (Inr (), t\<lparr>attempted := attempted t @ [r], closed := closed t @ [r]\<rparr>))"

definition close :: "(resource \<Rightarrow> bool) \<Rightarrow> bot_session \<Rightarrow> (close_error + unit) \<times> teardown" where
  "close fails session =
     (case close_resource fails EventClient \<lparr>attempted = [], closed = []\<rparr> of
        (Inl e, t1) \<Rightarrow> (Inl e, t1)
      | (Inr u, t1) \<Rightarrow>
          (case (if http_session session then close_resource fails HttpSession t1 else (Inr (), t1)) of
             (Inl e, t2) \<Rightarrow> (Inl e, t2)
           | (Inr u, t2) \<Rightarrow>
               (if redis_session session then close_resource fails RedisSession t2 else (Inr (), t2))))"

text \<open>The resources a session holds, in the order \<^verbatim>\<open>close\<close> visits them.\<close>

definition held_resources :: "bot_session \<Rightarrow> resource list" where
  "held_resources session =
     EventClient # (if http_session session then [HttpSession] else [])
       @ (if redis_session session then [RedisSession] else [])"

section \<open>Reporting a failed command\<close>

text \<open>
  Modelled from the spec: the extension that reports a failed command to the invoking
  user is not among the source files. By the spec's error taxonomy a
  \<^verbatim>\<open>UserInputError\<close> such as the missing target is "surfaced as guidance text": the text
  of the exception is sent to the channel of the invocation.
\<close>

definition surface_user_input_error :: "command_context \<Rightarrow> exn \<Rightarrow> world \<Rightarrow> world" where
  "surface_user_input_error ctx exception w =
     (case exception of
        UserInputError text \<Rightarrow> snd (channel_send (ctx_channel ctx) (ErrorEmbed text) w)
      | _ \<Rightarrow> w)"

text \<open>
  Modelled from the spec: the command framework, which is not among the source files
  either, hands the exception of a command that raised to the bot's hook
  \<open>on_command_error\<close> and to the reporting extension.
\<close>

definition invoke_bookmark ::
    "platform \<Rightarrow> command_context \<Rightarrow> message option \<Rightarrow> string \<Rightarrow> reaction_event list \<Rightarrow>
     world \<Rightarrow> world" where
  "invoke_bookmark p ctx arg title pending w =
     (case bookmark p ctx arg title pending w of
        (Inr u, w') \<Rightarrow> w'
      | (Inl e, w') \<Rightarrow> surface_user_input_error ctx e (on_command_error ctx e w'))"

section \<open>Sequences of commands\<close>

text \<open>
  The command framework runs one invocation after another on the same cache. A run keeps
  the world each command leaves behind, whether the command returned or raised.
\<close>

datatype command =
    BookmarkCommand command_context "message option" string "reaction_event list"
  | DeleteCommand command_context "message option"

fun run_command :: "platform \<Rightarrow> command \<Rightarrow> world \<Rightarrow> world" where
  "run_command p (BookmarkCommand ctx arg title pending) w = snd (bookmark p ctx arg title pending w)"
| "run_command p (DeleteCommand ctx arg) w = snd (delete_bookmark ctx arg w)"

fun run_commands :: "platform \<Rightarrow> command list \<Rightarrow> world \<Rightarrow> world" where
  "run_commands p [] w = w"
| "run_commands p (c # cs) w = run_commands p cs (run_command p c w)"

text \<open>The cache entry under a key is absent or the empty list.\<close>

definition entry_empty :: "world \<Rightarrow> int \<Rightarrow> bool" where
  "entry_empty w k = (case cache w k of None \<Rightarrow> True | Some ids \<Rightarrow> ids = [])"

section \<open>Example inputs\<close>

text \<open>
  Member A (private messages open), member B (private messages closed), a message X of a
  guild channel, and a world with an empty cache.
\<close>

definition member_A :: member where
  "member_A = \<lparr>member_id = 1, mention = ''<@1>'', accepts_dm = True\<rparr>"

definition member_B :: member where
  "member_B = \<lparr>member_id = 2, mention = ''<@2>'', accepts_dm = False\<rparr>"

definition message_X :: message where
  "message_X = \<lparr>message_id = 10, channel_id = 5, content = ''hello'', author = ''carol'',
                 jump_url = ''https://discord.com/channels/9/5/10''\<rparr>"

definition world0 :: world where
  "world0 = \<lparr>cache = Map.empty, next_message_id = 20, clock = 0, effects = []\<rparr>"

definition platform0 :: platform where
  "platform0 = \<lparr>bot_user_id = 99, read_messages = (\<lambda>channel m. True)\<rparr>"

definition ctx_A :: command_context where
  "ctx_A = \<lparr>ctx_channel = 5, ctx_author = member_A, ctx_reference = None,
             ctx_jump_url = ''https://discord.com/channels/9/5/11''\<rparr>"

definition dm_ctx_A :: command_context where
  "dm_ctx_A = \<lparr>ctx_channel = 1, ctx_author = member_A, ctx_reference = None,
             ctx_jump_url = ''https://discord.com/channels/@me/1/30''\<rparr>"

definition dm_20 :: message where
  "dm_20 = \<lparr>message_id = 20, channel_id = 1, content = [], author = [], jump_url = []\<rparr>"

text \<open>
  One more member, and the reactions to prompt 21 of a session started by A at time 0:
  B after 100 s, C after 200 s.
\<close>

definition member_C :: member where
  "member_C = \<lparr>member_id = 3, mention = ''<@3>'', accepts_dm = True\<rparr>"

definition reaction_of :: "member \<Rightarrow> nat \<Rightarrow> reaction_event" where
  "reaction_of m t = \<lparr>at = t, reaction_message_id = 21, reaction_emoji = BOOKMARK_EMOJI,
                       reaction_user = m\<rparr>"

definition reactions_example :: "reaction_event list" where
  "reactions_example = [reaction_of member_B 100, reaction_of member_C 200]"

text \<open>The prompt of a session and a reaction of member A to it, 30 seconds in.\<close>

definition prompt_21 :: message where
  "prompt_21 = \<lparr>message_id = 21, channel_id = 5, content = [], author = [], jump_url = []\<rparr>"

definition reaction_by_A :: reaction_event where
  "reaction_by_A = \<lparr>at = 30, reaction_message_id = 21, reaction_emoji = BOOKMARK_EMOJI,
                     reaction_user = member_A\<rparr>"

text \<open>
  A session holding both optional resources, and an environment in which closing the
  event-client connection raises.
\<close>

definition full_session :: bot_session where
  "full_session = \<lparr>http_session = True, redis_session = True\<rparr>"

fun event_client_fails :: "resource \<Rightarrow> bool" where
  "event_client_fails EventClient = True"
| "event_client_fails HttpSession = False"
| "event_client_fails RedisSession = False"

lemmas example_defs = member_A_def member_B_def message_X_def world0_def
  platform0_def ctx_A_def dm_ctx_A_def dm_20_def

lemmas send_defs = maybe_send_bookmark_def member_send_def channel_send_def
  update_member_bookmarked_messages_def get_member_bookmarked_messages_def
  build_bookmark_dm_def build_error_embed_def

lemmas loop_defs = bookmark_def action_bookmark_def wait_for_def event_check_def
  add_reaction_def message_delete_def reaction_remove_def resolve_target_def TIMEOUT_def

section \<open>Properties of the cache update\<close>

lemma update_absent_unchanged:
  "mid \<notin> set (get_member_bookmarked_messages w m) \<Longrightarrow>
   update_member_bookmarked_messages m mid action w = w"
  by (simp add: update_member_bookmarked_messages_def)

text \<open>
  A delivery that succeeds never leaves the target's id in the member's list: the id
  handed to the update is the id of the private message, and the update returns early
  unless that id is in the list already.
\<close>

lemma maybe_send_bookmark_target_absent:
  "maybe_send_bookmark target_message title m w = (Inr msg, w') \<Longrightarrow>
   message_id target_message \<notin> set (get_member_bookmarked_messages w' m)"
  by (auto simp: maybe_send_bookmark_def member_send_def update_member_bookmarked_messages_def
        get_member_bookmarked_messages_def Let_def split: if_splits option.splits)

text \<open>
  C1. After a successful delivery the id of the bookmarked message should be in the
  member's cached list. On the code it is not: member A bookmarks message X (id 10) with
  an empty cache, the private message is delivered as message 20,
  \<open>maybe_send_bookmark\<close> returns it, and A's cache entry is still absent.
\<close>

theorem maybe_send_bookmark_does_not_record:
  "fst (maybe_send_bookmark message_X ''Bookmark'' member_A world0)
     = Inr \<lparr>message_id = 20, channel_id = 1, content = [], author = [], jump_url = []\<rparr>
   \<and> cache (snd (maybe_send_bookmark message_X ''Bookmark'' member_A world0)) 1 = None
   \<and> message_id message_X \<notin> set (get_member_bookmarked_messages
         (snd (maybe_send_bookmark message_X ''Bookmark'' member_A world0)) member_A)"
  by (simp add: example_defs send_defs)

text \<open>
  C2. A second bookmark of the same message for the same member should fail with
  \<open>AlreadyBookmarkedError\<close>. On the code it does not: after A's first bookmark of X the
  second attempt returns a second private message (id 21) and two private messages have
  been sent.
\<close>

theorem second_bookmark_is_delivered_again:
  "(case maybe_send_bookmark message_X ''Bookmark'' member_A world0 of
      (first, w1) \<Rightarrow>
        (case maybe_send_bookmark message_X ''Bookmark'' member_A w1 of
           (second, w2) \<Rightarrow>
             first = Inr \<lparr>message_id = 20, channel_id = 1, content = [], author = [],
                            jump_url = []\<rparr>
             \<and> second = Inr \<lparr>message_id = 21, channel_id = 1, content = [], author = [],
                               jump_url = []\<rparr>
             \<and> second \<noteq> Inl AlreadyBookmarkedError
             \<and> effects w2 =
                 [DirectMessage 1 (build_bookmark_dm message_X ''Bookmark''),
                  DirectMessage 1 (build_bookmark_dm message_X ''Bookmark'')]))"
  by (simp add: example_defs send_defs)

section \<open>What a run of commands does to an empty cache entry\<close>

lemma maybe_send_bookmark_raises:
  "fst (maybe_send_bookmark target_message title m w) = Inl e \<Longrightarrow>
   e = AlreadyBookmarkedError \<or> e = Forbidden"
  by (auto simp: maybe_send_bookmark_def member_send_def Let_def split: if_splits)

lemma action_bookmark_returns:
  "fst (action_bookmark channel m target_message title w) = Inr ()"
proof (cases "maybe_send_bookmark target_message title m w")
  case (Pair r w')
  show ?thesis
  proof (cases r)
    case (Inl e)
    with Pair maybe_send_bookmark_raises[of target_message title m w e]
    have "e = AlreadyBookmarkedError \<or> e = Forbidden" by simp
    with Pair Inl show ?thesis by (auto simp: action_bookmark_def)
  next
    case (Inr msg)
    with Pair show ?thesis by (simp add: action_bookmark_def)
  qed
qed

lemma update_keeps_empty_entry:
  "entry_empty w k \<Longrightarrow> cache (update_member_bookmarked_messages m mid action w) k = cache w k"
  by (auto simp: entry_empty_def update_member_bookmarked_messages_def
        get_member_bookmarked_messages_def Let_def split: option.splits)

lemma maybe_send_keeps_empty_entry:
  "entry_empty w k \<Longrightarrow> cache (snd (maybe_send_bookmark target_message title m w)) k = cache w k"
  by (auto simp: entry_empty_def maybe_send_bookmark_def member_send_def
        update_member_bookmarked_messages_def
        get_member_bookmarked_messages_def Let_def split: option.splits)

lemma cache_channel_send [simp]: "cache (snd (channel_send ch e w)) = cache w"
  by (simp add: channel_send_def)

lemma action_keeps_empty_entry:
  "entry_empty w k \<Longrightarrow> cache (snd (action_bookmark channel m target_message title w)) k = cache w k"
  using maybe_send_keeps_empty_entry[of w k target_message title m]
  by (auto simp: action_bookmark_def split: prod.splits sum.splits exn.splits)

text \<open>
  The two ways out of the loop: the wait times out, or it returns a reaction, whose user
  is served and whose removal then raises.
\<close>

lemma collecting_timeout:
  assumes "wait_for TIMEOUT (event_check p reaction_message bookmarked_users) pending w = None"
  shows "collecting p channel target_message title reaction_message pending bookmarked_users w
           = (Inr (), bookmarked_users, w\<lparr>clock := clock w + TIMEOUT\<rparr>)"
  using assms by (subst collecting.simps) simp

lemma collecting_accepted_raises:
  assumes "wait_for TIMEOUT (event_check p reaction_message bookmarked_users) pending w
             = Some (ev, rest)"
  shows "collecting p channel target_message title reaction_message pending bookmarked_users w
           = (Inl TypeError, bookmarked_users,
              snd (action_bookmark channel (reaction_user ev) target_message title
                     (w\<lparr>clock := at ev\<rparr>)))"
proof -
  let ?w1 = "w\<lparr>clock := at ev\<rparr>"
  obtain r w' where ab:
    "action_bookmark channel (reaction_user ev) target_message title ?w1 = (r, w')"
    by (cases "action_bookmark channel (reaction_user ev) target_message title ?w1")
  have "r = Inr ()"
    using action_bookmark_returns[of channel "reaction_user ev" target_message title ?w1] ab
    by simp
  with assms ab show ?thesis
    by (subst collecting.simps) (simp add: reaction_remove_def)
qed

lemma collecting_keeps_empty_entry:
  assumes "entry_empty w k"
  shows "cache (snd (snd (collecting p channel target_message title reaction_message pending
                      bookmarked_users w))) k = cache w k"
proof (cases "wait_for TIMEOUT (event_check p reaction_message bookmarked_users) pending w")
  case None
  then show ?thesis by (simp add: collecting_timeout)
next
  case (Some a)
  obtain ev rest where a: "a = (ev, rest)" by (cases a)
  have "entry_empty (w\<lparr>clock := at ev\<rparr>) k" using assms by (simp add: entry_empty_def)
  then have "cache (snd (action_bookmark channel (reaction_user ev) target_message title
                           (w\<lparr>clock := at ev\<rparr>))) k = cache w k"
    using action_keeps_empty_entry[of "w\<lparr>clock := at ev\<rparr>" k channel "reaction_user ev"
            target_message title] by simp
  with Some a show ?thesis by (simp add: collecting_accepted_raises)
qed

lemma bookmark_keeps_empty_entry:
  assumes "entry_empty w k"
  shows "cache (snd (bookmark p ctx arg title pending w)) k = cache w k"
proof (cases "resolve_target arg ctx")
  case None
  then show ?thesis by (simp add: bookmark_def)
next
  case (Some target_message)
  show ?thesis
  proof (cases "read_messages p (channel_id target_message) (member_id (ctx_author ctx))")
    case False
    with Some show ?thesis by (simp add: bookmark_def)
  next
    case True
    obtain r w1 where ab:
      "action_bookmark (ctx_channel ctx) (ctx_author ctx) target_message title w = (r, w1)"
      by (cases "action_bookmark (ctx_channel ctx) (ctx_author ctx) target_message title w")
    have c1: "cache w1 k = cache w k"
      using action_keeps_empty_entry[OF assms, of "ctx_channel ctx" "ctx_author ctx" target_message title] ab
      by simp
    show ?thesis
    proof (cases r)
      case (Inl e)
      with Some True ab c1 show ?thesis by (simp add: bookmark_def)
    next
      case (Inr u)
      let ?emb = "ReactionEmbed (''React with '' @ BOOKMARK_EMOJI
                           @ '' to be sent your very own bookmark to [this message]('' @ ctx_jump_url ctx
                           @ '').'')"
      obtain rm w2 where cs: "channel_send (ctx_channel ctx) ?emb w1 = (rm, w2)"
        by (cases "channel_send (ctx_channel ctx) ?emb w1")
      have c2: "cache w2 k = cache w k" using cs c1 cache_channel_send[of "ctx_channel ctx" ?emb w1] by simp
      let ?w3 = "add_reaction rm BOOKMARK_EMOJI w2"
      have e3: "entry_empty ?w3 k" using c2 assms by (simp add: entry_empty_def add_reaction_def)
      have c3: "cache ?w3 k = cache w k" using c2 by (simp add: add_reaction_def)
      obtain r4 us w4 where col:
        "collecting p (ctx_channel ctx) target_message title rm pending [member_id (ctx_author ctx)] ?w3
           = (r4, us, w4)"
        by (cases "collecting p (ctx_channel ctx) target_message title rm pending [member_id (ctx_author ctx)] ?w3") auto
      have c4: "cache w4 k = cache w k"
        using collecting_keeps_empty_entry[OF e3, of p "ctx_channel ctx" target_message title rm pending
                "[member_id (ctx_author ctx)]"] col c3 by simp
      from Some True ab Inr cs col c4 show ?thesis
        by (cases r4) (simp_all add: bookmark_def message_delete_def)
    qed
  qed
qed

lemma delete_keeps_empty_entry:
  assumes "entry_empty w k"
  shows "cache (snd (delete_bookmark ctx arg w)) k = cache w k"
proof -
  have "\<And>msg. entry_empty (message_delete msg w) k"
    using assms by (simp add: entry_empty_def message_delete_def)
  then have "\<And>msg m mid. cache (update_member_bookmarked_messages m mid Remove (message_delete msg w)) k
               = cache w k"
    using update_keeps_empty_entry by (simp add: message_delete_def)
  then show ?thesis
    by (simp add: delete_bookmark_def split: option.splits)
qed

lemma run_command_keeps_empty_entry:
  "entry_empty w k \<Longrightarrow> cache (run_command p c w) k = cache w k"
  by (cases c) (simp_all add: bookmark_keeps_empty_entry delete_keeps_empty_entry)

lemma run_commands_keeps_empty_entry:
  "entry_empty w k \<Longrightarrow> cache (run_commands p cs w) k = cache w k"
proof (induction cs arbitrary: w)
  case Nil
  then show ?case by simp
next
  case (Cons c cs)
  have "cache (run_command p c w) k = cache w k"
    using Cons.prems by (rule run_command_keeps_empty_entry)
  moreover from this Cons.prems have "entry_empty (run_command p c w) k"
    by (simp add: entry_empty_def)
  ultimately show ?case using Cons.IH by simp
qed

text \<open>
  C3. Starting from an absent or empty cache entry for a member, after any sequence of
  bookmark and delete commands (by any members, returning or raising) the member's
  cached list holds no message id twice. (The entry is in fact never written: see
  \<open>run_commands_keeps_empty_entry\<close>.)
\<close>

theorem bookmark_list_never_holds_duplicates:
  assumes "cache w (member_id m) = None \<or> cache w (member_id m) = Some []"
  shows "distinct (get_member_bookmarked_messages (run_commands p cs w) m)"
proof -
  from assms have "entry_empty w (member_id m)"
    by (auto simp: entry_empty_def)
  then have "cache (run_commands p cs w) (member_id m) = cache w (member_id m)"
    by (rule run_commands_keeps_empty_entry)
  with assms show ?thesis
    by (auto simp: get_member_bookmarked_messages_def)
qed

theorem bookmark_list_never_holds_duplicates_witness:
  "cache world0 (member_id member_A) = None
   \<and> distinct (get_member_bookmarked_messages
        (run_commands platform0
           [BookmarkCommand ctx_A (Some message_X) ''Bookmark'' [],
            BookmarkCommand ctx_A (Some message_X) ''Bookmark'' [],
            DeleteCommand dm_ctx_A (Some dm_20)] world0) member_A)"
  using bookmark_list_never_holds_duplicates[of world0 member_A platform0
     "[BookmarkCommand ctx_A (Some message_X) ''Bookmark'' [],
            BookmarkCommand ctx_A (Some message_X) ''Bookmark'' [],
            DeleteCommand dm_ctx_A (Some dm_20)]"]
  by (simp add: world0_def member_A_def)

section \<open>Closing the bot session\<close>

text \<open>
  C4, as stated: the three closes are independent, a raised exception in an earlier close
  does not skip the later ones. On the code this fails: when closing the event-client
  connection raises, the exception leaves \<open>close\<close> and neither the HTTP session's nor
  the Redis session's close is called.
\<close>

theorem close_failure_skips_later_closes:
  "close event_client_fails full_session
     = (Inl (CloseFailed EventClient), \<lparr>attempted = [EventClient], closed = []\<rparr>)
   \<and> HttpSession \<notin> set (attempted (snd (close event_client_fails full_session)))
   \<and> RedisSession \<notin> set (attempted (snd (close event_client_fails full_session)))"
  by (simp add: close_def close_resource_def full_session_def)

text \<open>
  C4, amended: \<open>close\<close> calls the closes of the held resources in the order event
  client, HTTP session, Redis session. When none raises, all held resources are closed.
  Otherwise it stops at the first close that raises: the resources before it are closed,
  its exception is the outcome, and no later close is called.
\<close>

theorem close_stops_at_first_failure:
  "close fails session =
     (case find fails (held_resources session) of
        None \<Rightarrow> (Inr (), \<lparr>attempted = held_resources session, closed = held_resources session\<rparr>)
      | Some r \<Rightarrow>
          (Inl (CloseFailed r),
           \<lparr>attempted = takeWhile (\<lambda>x. \<not> fails x) (held_resources session) @ [r],
             closed = takeWhile (\<lambda>x. \<not> fails x) (held_resources session)\<rparr>))"
  by (simp add: close_def close_resource_def held_resources_def)

section \<open>The reaction filter\<close>

text \<open>
  C5. A reaction event passes \<open>event_check\<close> exactly when it is on the prompt
  message, its user's id is not in \<open>bookmarked_users\<close>, its emoji is the bookmark
  emoji, and its user is not the bot; so a reaction by a user already in
  \<open>bookmarked_users\<close> is rejected whatever its emoji and target.
\<close>

theorem event_check_accepts_iff:
  "(event_check p reaction_message bookmarked_users ev \<longleftrightarrow>
      reaction_message_id ev = message_id reaction_message
      \<and> member_id (reaction_user ev) \<notin> set bookmarked_users
      \<and> reaction_emoji ev = BOOKMARK_EMOJI
      \<and> member_id (reaction_user ev) \<noteq> bot_user_id p)
   \<and> (member_id (reaction_user ev) \<in> set bookmarked_users \<longrightarrow>
        \<not> event_check p reaction_message bookmarked_users ev)"
  by (auto simp: event_check_def)

theorem event_check_accepts_iff_witness:
  "member_id (reaction_user reaction_by_A) \<in> set [1]
   \<and> reaction_message_id reaction_by_A = message_id prompt_21
   \<and> reaction_emoji reaction_by_A = BOOKMARK_EMOJI
   \<and> member_id (reaction_user reaction_by_A) \<noteq> bot_user_id platform0
   \<and> \<not> event_check platform0 prompt_21 [1] reaction_by_A
   \<and> event_check platform0 prompt_21 [2] reaction_by_A"
  using event_check_accepts_iff[of platform0 prompt_21 "[1]" reaction_by_A]
        event_check_accepts_iff[of platform0 prompt_21 "[2]" reaction_by_A]
  by (simp add: reaction_by_A_def prompt_21_def member_A_def platform0_def)

section \<open>A member whose private messages are closed\<close>

text \<open>
  C8. For a member whose private messages are closed, \<open>action_bookmark\<close> returns
  normally, no private message is delivered (the send, when it is tried, is refused), one
  error embed is sent to the invoking channel, and the cache is unchanged.
\<close>

theorem closed_dms_give_error_embed:
  assumes "\<not> accepts_dm m"
  shows "action_bookmark channel m target_message title w =
           (Inr (), w\<lparr>next_message_id := next_message_id w + 1,
                      effects := effects w @
                        (if message_id target_message \<in> set (get_member_bookmarked_messages w m)
                         then [ChannelSend channel (ErrorEmbed
                                 (mention m @ '', you have already bookmarked this message!''))]
                         else [SendRefused (member_id m),
                               ChannelSend channel (ErrorEmbed
                                 (mention m @ '', please enable your DMs to receive the bookmark.''))])\<rparr>)
         \<and> cache (snd (action_bookmark channel m target_message title w)) = cache w"
  using assms
  by (simp add: action_bookmark_def send_defs)

theorem closed_dms_give_error_embed_witness:
  "\<not> accepts_dm member_B
   \<and> effects (snd (action_bookmark 5 member_B message_X ''Bookmark'' world0))
       = [SendRefused 2,
          ChannelSend 5 (ErrorEmbed ''<@2>, please enable your DMs to receive the bookmark.'')]
   \<and> cache (snd (action_bookmark 5 member_B message_X ''Bookmark'' world0)) = Map.empty"
  using closed_dms_give_error_embed[of member_B 5 message_X "''Bookmark''" world0]
  by (simp add: member_B_def world0_def message_X_def get_member_bookmarked_messages_def)

section \<open>Deleting a message that is not in the list\<close>

text \<open>
  C9. When the message to delete resolves, lies in the invoking private channel, and its
  id is not in the invoking member's cached list, \<open>delete_bookmark\<close> returns
  normally, the message is deleted, and the whole cache is unchanged.
\<close>

theorem delete_of_unlisted_message:
  assumes "resolve_target arg ctx = Some message_to_delete"
      and "channel_id message_to_delete = ctx_channel ctx"
      and "message_id message_to_delete \<notin> set (get_member_bookmarked_messages w (ctx_author ctx))"
  shows "delete_bookmark ctx arg w =
           (Inr (), w\<lparr>effects := effects w @ [DeleteMessage (message_id message_to_delete)]\<rparr>)
         \<and> cache (snd (delete_bookmark ctx arg w)) = cache w"
  using assms
  by (simp add: delete_bookmark_def message_delete_def update_member_bookmarked_messages_def
        get_member_bookmarked_messages_def)

theorem delete_of_unlisted_message_witness:
  "resolve_target (Some dm_20) dm_ctx_A = Some dm_20
   \<and> channel_id dm_20 = ctx_channel dm_ctx_A
   \<and> message_id dm_20 \<notin> set (get_member_bookmarked_messages world0 (ctx_author dm_ctx_A))
   \<and> delete_bookmark dm_ctx_A (Some dm_20) world0 = (Inr (), world0\<lparr>effects := [DeleteMessage 20]\<rparr>)
   \<and> cache (snd (delete_bookmark dm_ctx_A (Some dm_20) world0)) = Map.empty"
  using delete_of_unlisted_message[of "Some dm_20" dm_ctx_A dm_20 world0]
  by (simp add: resolve_target_def dm_20_def dm_ctx_A_def world0_def member_A_def
        get_member_bookmarked_messages_def)

section \<open>The collecting loop\<close>

lemma action_bookmark_never_deletes:
  "\<exists>ext. effects (snd (action_bookmark channel m target_message title w)) = effects w @ ext
     \<and> (\<forall>d. DeleteMessage d \<notin> set ext)"
  by (cases "accepts_dm m";
      cases "message_id target_message \<in> set (get_member_bookmarked_messages w m)")
     (simp_all add: action_bookmark_def send_defs Let_def)

text \<open>
  The command once the author has been served and the prompt posted, for every input.
  When no reaction qualifies before the first deadline, 120 s after the start, the command
  returns and its last request deletes the prompt. When a reaction qualifies, its user is
  served, the command ends with \<open>TypeError\<close> at the arrival of that reaction, and the
  requests made after the prompt was posted contain no deletion.
\<close>

lemma bookmark_idle_deletes_prompt:
  assumes "resolve_target arg ctx = Some target_message"
      and "read_messages p (channel_id target_message) (member_id (ctx_author ctx))"
      and "action_bookmark (ctx_channel ctx) (ctx_author ctx) target_message title w = (r1, w1)"
      and "channel_send (ctx_channel ctx)
             (ReactionEmbed (''React with '' @ BOOKMARK_EMOJI
                @ '' to be sent your very own bookmark to [this message]('' @ ctx_jump_url ctx
                @ '').'')) w1 = (prompt, w2)"
      and "wait_for TIMEOUT (event_check p prompt [member_id (ctx_author ctx)]) pending
             (add_reaction prompt BOOKMARK_EMOJI w2) = None"
  shows "bookmark p ctx arg title pending w =
           (Inr (), w2\<lparr>clock := clock w2 + 120,
                      effects := effects w2 @ [AddReaction (message_id prompt) BOOKMARK_EMOJI,
                                               DeleteMessage (message_id prompt)]\<rparr>)"
proof -
  have "r1 = Inr ()"
    using action_bookmark_returns[of "ctx_channel ctx" "ctx_author ctx" target_message title w]
          assms(3) by simp
  with assms show ?thesis
    by (simp add: bookmark_def collecting_timeout message_delete_def add_reaction_def TIMEOUT_def)
qed

lemma bookmark_accepted_reaction_raises:
  assumes "resolve_target arg ctx = Some target_message"
      and "read_messages p (channel_id target_message) (member_id (ctx_author ctx))"
      and "action_bookmark (ctx_channel ctx) (ctx_author ctx) target_message title w = (r1, w1)"
      and "channel_send (ctx_channel ctx)
             (ReactionEmbed (''React with '' @ BOOKMARK_EMOJI
                @ '' to be sent your very own bookmark to [this message]('' @ ctx_jump_url ctx
                @ '').'')) w1 = (prompt, w2)"
      and "wait_for TIMEOUT (event_check p prompt [member_id (ctx_author ctx)]) pending
             (add_reaction prompt BOOKMARK_EMOJI w2) = Some (ev, rest)"
  shows "\<exists>ext w'. bookmark p ctx arg title pending w = (Inl TypeError, w')
           \<and> clock w' = at ev
           \<and> effects w' = effects w2 @ [AddReaction (message_id prompt) BOOKMARK_EMOJI] @ ext
           \<and> (\<forall>d. DeleteMessage d \<notin> set ext)"
proof -
  let ?w3 = "add_reaction prompt BOOKMARK_EMOJI w2"
  let ?w4 = "snd (action_bookmark (ctx_channel ctx) (reaction_user ev) target_message title
                    (?w3\<lparr>clock := at ev\<rparr>))"
  have r1: "r1 = Inr ()"
    using action_bookmark_returns[of "ctx_channel ctx" "ctx_author ctx" target_message title w]
          assms(3) by simp
  have run: "bookmark p ctx arg title pending w = (Inl TypeError, ?w4)"
    using assms r1 by (simp add: bookmark_def collecting_accepted_raises)
  have ck: "clock ?w4 = at ev"
    by (cases "accepts_dm (reaction_user ev)";
        cases "message_id target_message
                 \<in> set (get_member_bookmarked_messages (?w3\<lparr>clock := at ev\<rparr>) (reaction_user ev))")
       (simp_all add: action_bookmark_def send_defs Let_def)
  obtain ext where ext: "effects ?w4 = effects (?w3\<lparr>clock := at ev\<rparr>) @ ext"
      "\<forall>d. DeleteMessage d \<notin> set ext"
    using action_bookmark_never_deletes[of "ctx_channel ctx" "reaction_user ev" target_message
            title "?w3\<lparr>clock := at ev\<rparr>"] by blast
  have "effects ?w4 = effects w2 @ [AddReaction (message_id prompt) BOOKMARK_EMOJI] @ ext"
    using ext(1) by (simp add: add_reaction_def)
  with run ck ext(2) show ?thesis by blast
qed

text \<open>
  C6. Every run of the loop should leave it through a wait that timed out and then delete
  the prompt once. On the code a run with a qualifying reaction does not: A bookmarks X,
  B reacts to the prompt (message 21) after 100 s; B is served (the private message is
  refused, the error embed is sent), the removal of the reaction raises \<open>TypeError\<close>,
  and the command ends there, at 100 s, with no wait after it and the prompt not deleted.
\<close>

theorem accepted_reaction_leaves_prompt_undeleted:
  "fst (bookmark platform0 ctx_A (Some message_X) ''Bookmark'' reactions_example world0)
     = Inl TypeError
   \<and> clock (snd (bookmark platform0 ctx_A (Some message_X) ''Bookmark'' reactions_example world0))
       = 100
   \<and> effects (snd (bookmark platform0 ctx_A (Some message_X) ''Bookmark'' reactions_example world0))
       = [DirectMessage 1 (build_bookmark_dm message_X ''Bookmark''),
          ChannelSend 5 (ReactionEmbed (''React with '' @ BOOKMARK_EMOJI
             @ '' to be sent your very own bookmark to [this message]('' @ ctx_jump_url ctx_A @ '').'')),
          AddReaction 21 BOOKMARK_EMOJI,
          SendRefused 2,
          ChannelSend 5 (ErrorEmbed ''<@2>, please enable your DMs to receive the bookmark.'')]
   \<and> DeleteMessage 21
       \<notin> set (effects (snd (bookmark platform0 ctx_A (Some message_X) ''Bookmark''
                               reactions_example world0)))"
  by (simp add: reactions_example_def reaction_of_def member_C_def example_defs
        loop_defs send_defs collecting.simps)

text \<open>
  C10. The user of an accepted reaction should be in the list of claimed users
  afterwards. On the code it is not: with A (id 1) in the list, B's reaction to the
  prompt passes the wait, B is served, the removal of the reaction raises \<open>TypeError\<close>
  before the append, and the loop is left with the list still \<open>[1]\<close>.
\<close>

theorem accepted_reactor_is_not_claimed:
  "wait_for TIMEOUT (event_check platform0 prompt_21 [1]) reactions_example world0
     = Some (reaction_of member_B 100, [reaction_of member_C 200])
   \<and> fst (collecting platform0 5 message_X ''Bookmark'' prompt_21 reactions_example [1] world0)
       = Inl TypeError
   \<and> fst (snd (collecting platform0 5 message_X ''Bookmark'' prompt_21 reactions_example [1]
                  world0)) = [1]
   \<and> member_id member_B
       \<notin> set (fst (snd (collecting platform0 5 message_X ''Bookmark'' prompt_21
                            reactions_example [1] world0)))"
  by (simp add: reactions_example_def reaction_of_def member_C_def prompt_21_def example_defs
        loop_defs send_defs collecting.simps)

section \<open>A command without a target message\<close>

text \<open>The guidance text ends with the three lookup strategies, in the order it announces.\<close>

lemma guidance_lists_strategies:
  "\<exists>intro. MESSAGE_NOT_FOUND_ERROR =
       intro
       @ ''\<newline>1. Lookup by '{channel ID}-{message ID}' (retrieved by shift-clicking on 'Copy ID')''
       @ ''\<newline>2. Lookup by message ID (the message **must** have been sent after the bot last started)''
       @ ''\<newline>3. Lookup by message URL''"
  unfolding MESSAGE_NOT_FOUND_ERROR_def
  by (intro exI[of _ "''You must either provide a valid message to bookmark, or reply to one.''
     @ ''\<newline>\<newline>The lookup strategy for a message is as follows (in order):''"]) simp

text \<open>
  C7. With no message argument and no resolved reply reference, the bookmark command
  raises \<^verbatim>\<open>UserInputError\<close> with the guidance text \<open>MESSAGE_NOT_FOUND_ERROR\<close> (which
  lists the three lookup strategies) and changes nothing; handling that error resets the
  cooldown and sends the text to the invoking channel.
\<close>

theorem bookmark_without_target:
  assumes "arg = None" and "ctx_reference ctx = None"
  shows "bookmark p ctx arg title pending w = (Inl (UserInputError MESSAGE_NOT_FOUND_ERROR), w)
       \<and> invoke_bookmark p ctx arg title pending w
           = w\<lparr>next_message_id := next_message_id w + 1,
               effects := effects w @
                 [ResetCooldown,
                  ChannelSend (ctx_channel ctx) (ErrorEmbed MESSAGE_NOT_FOUND_ERROR)]\<rparr>
       \<and> (\<exists>intro. MESSAGE_NOT_FOUND_ERROR =
             intro
             @ ''\<newline>1. Lookup by '{channel ID}-{message ID}' (retrieved by shift-clicking on 'Copy ID')''
             @ ''\<newline>2. Lookup by message ID (the message **must** have been sent after the bot last started)''
             @ ''\<newline>3. Lookup by message URL'')"
proof -
  have "bookmark p ctx arg title pending w = (Inl (UserInputError MESSAGE_NOT_FOUND_ERROR), w)
       \<and> invoke_bookmark p ctx arg title pending w
           = w\<lparr>next_message_id := next_message_id w + 1,
               effects := effects w @
                 [ResetCooldown,
                  ChannelSend (ctx_channel ctx) (ErrorEmbed MESSAGE_NOT_FOUND_ERROR)]\<rparr>"
    using assms
    by (simp add: invoke_bookmark_def bookmark_def resolve_target_def on_command_error_def
          surface_user_input_error_def channel_send_def)
  with guidance_lists_strategies show ?thesis by blast
qed

theorem bookmark_without_target_witness:
  "ctx_reference ctx_A = None
   \<and> bookmark platform0 ctx_A None ''Bookmark'' [] world0
       = (Inl (UserInputError MESSAGE_NOT_FOUND_ERROR), world0)
   \<and> effects (invoke_bookmark platform0 ctx_A None ''Bookmark'' [] world0)
       = [ResetCooldown, ChannelSend 5 (ErrorEmbed MESSAGE_NOT_FOUND_ERROR)]"
  using bookmark_without_target[of None ctx_A platform0 "''Bookmark''" "[]" world0]
  by (simp add: ctx_A_def world0_def)

end
